theory Spec2Isabelle
  imports Complex_Main
begin

section \<open>Mass estimation from detection polygons (MassEstimate.py)\<close>

text \<open>
  The program reads a JSON document of object detections, computes the pixel area of
  every detection polygon with the shoelace formula, converts the area to three mass
  estimates and adds a totals row. This theory embeds its four functions
  (\<^verbatim>\<open>shoelace_area_px2\<close>, \<^verbatim>\<open>iter_prediction_objects\<close>,
  \<^verbatim>\<open>prediction_to_row\<close> and the computing part of
  \<^verbatim>\<open>json_predictions_to_csv\<close>) and states the properties of the
  specification about them.

  Conventions of the embedding.
  \<^item> A parsed JSON value is what \<^verbatim>\<open>json.loads\<close> returns: \<^verbatim>\<open>None\<close>,
    a bool, an int, a float, a str, a list or a dict. A dict is the list of its items in
    insertion order; its keys are distinct, and \<open>map_of\<close> is the lookup.
  \<^item> Python's int is unbounded (\<open>int\<close>). Python's float is read as an exact real
    number: rounding to binary64, infinities, NaN and the \<^verbatim>\<open>OverflowError\<close> of
    converting a huge int to a float are outside the model. Every numeric statement
    below is a statement of exact arithmetic.
  \<^item> An exception is a value: a function that can raise returns \<open>py_error + 'a\<close>.
  \<^item> A generator is the list of the values it yields, with the exception that ends it,
    if one does.
\<close>

subsection \<open>Values and exceptions\<close>

datatype json =
    JNull
  | JBool bool
  | JInt int
  | JFloat real
  | JStr string
  | JList "json list"
  | JDict "(string \<times> json) list"

datatype py_error = TypeError | KeyError | AttributeError

text \<open>\<^verbatim>\<open>d.get(k)\<close>: the value at \<open>k\<close>, or \<^verbatim>\<open>None\<close> when the key is missing.\<close>

definition py_get :: "(string \<times> json) list \<Rightarrow> string \<Rightarrow> json" where
  "py_get d k = (case map_of d k of None \<Rightarrow> JNull | Some v \<Rightarrow> v)"

text \<open>
  \<^verbatim>\<open>v[k]\<close> with a string \<open>k\<close>: a dict raises \<^verbatim>\<open>KeyError\<close> on a missing key;
  a list and a str want an integer index, and the other values cannot be subscripted
  (\<^verbatim>\<open>TypeError\<close>).
\<close>

fun py_subscript :: "json \<Rightarrow> string \<Rightarrow> py_error + json" where
  "py_subscript (JDict d) k = (case map_of d k of None \<Rightarrow> Inl KeyError | Some v \<Rightarrow> Inr v)"
| "py_subscript _ k = Inl TypeError"

text \<open>
  The value of a number in arithmetic. A bool is an int in Python (\<^verbatim>\<open>True\<close> is 1).
\<close>

fun py_num :: "json \<Rightarrow> real option" where
  "py_num (JInt i) = Some (of_int i)"
| "py_num (JFloat r) = Some r"
| "py_num (JBool b) = Some (if b then 1 else 0)"
| "py_num _ = None"

text \<open>
  \<^verbatim>\<open>x1 * y2 - y1 * x2\<close>. With four numbers it is their cross product. A product with
  an operand that is no number either raises \<^verbatim>\<open>TypeError\<close> or is a str or a list
  (a sequence repeated), which the subtraction then refuses: the expression raises
  \<^verbatim>\<open>TypeError\<close> as soon as one operand is not a number. (A repetition too long to
  build raises \<^verbatim>\<open>MemoryError\<close> or \<^verbatim>\<open>OverflowError\<close> before that; the
  model writes \<^verbatim>\<open>TypeError\<close> there too.)
\<close>

definition cross :: "json \<Rightarrow> json \<Rightarrow> json \<Rightarrow> json \<Rightarrow> py_error + real" where
  "cross x1 y1 x2 y2 =
     (case (py_num x1, py_num y1, py_num x2, py_num y2) of
        (Some a1, Some b1, Some a2, Some b2) \<Rightarrow> Inr (a1 * b2 - b1 * a2)
      | _ \<Rightarrow> Inl TypeError)"

subsection \<open>Generators\<close>

type_synonym 'a gen = "'a list \<times> py_error option"

definition gen_empty :: "'a gen" where
  "gen_empty = ([], None)"

text \<open>One generator after another: the second runs only if the first ended normally.\<close>

fun gen_then :: "'a gen \<Rightarrow> 'a gen \<Rightarrow> 'a gen" where
  "gen_then (xs, Some e) g = (xs, Some e)"
| "gen_then (xs, None) (ys, r) = (xs @ ys, r)"

definition gen_concat :: "'a gen list \<Rightarrow> 'a gen" where
  "gen_concat gs = foldr gen_then gs gen_empty"

text \<open>
  \<^verbatim>\<open>yield from v\<close>: a list yields its elements, a str its characters, a dict its keys;
  the other values are not iterable.
\<close>

fun py_iter :: "json \<Rightarrow> py_error + json list" where
  "py_iter (JList xs) = Inr xs"
| "py_iter (JStr s) = Inr (map (\<lambda>c. JStr [c]) s)"
| "py_iter (JDict d) = Inr (map (\<lambda>kv. JStr (fst kv)) d)"
| "py_iter _ = Inl TypeError"

definition yield_from :: "json \<Rightarrow> json gen" where
  "yield_from v = (case py_iter v of Inl e \<Rightarrow> ([], Some e) | Inr xs \<Rightarrow> (xs, None))"

subsection \<open>The extractor\<close>

text \<open>\<^verbatim>\<open>k in obj and isinstance(obj[k], list)\<close>, with the list when it holds.\<close>

fun list_at :: "(string \<times> json) list \<Rightarrow> string \<Rightarrow> json list option" where
  "list_at obj k = (case map_of obj k of Some (JList xs) \<Rightarrow> Some xs | _ \<Rightarrow> None)"

text \<open>\<^verbatim>\<open>isinstance(v, (dict, list))\<close>\<close>

fun is_dict_or_list :: "json \<Rightarrow> bool" where
  "is_dict_or_list (JDict _) = True"
| "is_dict_or_list (JList _) = True"
| "is_dict_or_list _ = False"

text \<open>
  The body of the loop over \<^verbatim>\<open>obj["outputs"]\<close>:
  \<^verbatim>\<open>if isinstance(out, dict) and "predictions" in out: yield from out["predictions"]\<close>.
  The value under \<^verbatim>\<open>"predictions"\<close> is not checked to be a list here.
\<close>

fun out_predictions :: "json \<Rightarrow> json gen" where
  "out_predictions (JDict out) =
     (case map_of out ''predictions'' of None \<Rightarrow> gen_empty | Some v \<Rightarrow> yield_from v)"
| "out_predictions _ = gen_empty"

fun iter_prediction_objects :: "json \<Rightarrow> json gen" where
  "iter_prediction_objects (JDict obj) =
     (case list_at obj ''predictions'' of
        Some ps \<Rightarrow> (ps, None)
      | None \<Rightarrow>
         (case list_at obj ''outputs'' of
            Some outs \<Rightarrow> gen_concat (map out_predictions outs)
          | None \<Rightarrow>
              gen_concat (map (\<lambda>(k, v).
                if is_dict_or_list v then iter_prediction_objects v else gen_empty) obj)))"
| "iter_prediction_objects (JList items) = gen_concat (map iter_prediction_objects items)"
| "iter_prediction_objects _ = gen_empty"

subsection \<open>The shoelace formula\<close>

text \<open>
  One round of the loop body: the coordinates of \<^verbatim>\<open>points[i]\<close> and
  \<^verbatim>\<open>points[(i + 1) % n]\<close> are read in the order of the source, then the cross
  product is added to \<open>s\<close>.
\<close>

definition edge_term :: "json \<Rightarrow> json \<Rightarrow> py_error + real" where
  "edge_term p q =
     (case py_subscript p ''x'' of Inl e \<Rightarrow> Inl e | Inr x1 \<Rightarrow>
       (case py_subscript p ''y'' of Inl e \<Rightarrow> Inl e | Inr y1 \<Rightarrow>
         (case py_subscript q ''x'' of Inl e \<Rightarrow> Inl e | Inr x2 \<Rightarrow>
           (case py_subscript q ''y'' of Inl e \<Rightarrow> Inl e | Inr y2 \<Rightarrow>
              cross x1 y1 x2 y2))))"

fun shoelace_loop :: "json list \<Rightarrow> nat list \<Rightarrow> real \<Rightarrow> py_error + real" where
  "shoelace_loop points [] s = Inr s"
| "shoelace_loop points (i # is) s =
     (case edge_term (points ! i) (points ! ((i + 1) mod length points)) of
        Inl e \<Rightarrow> Inl e
      | Inr t \<Rightarrow> shoelace_loop points is (s + t))"

definition shoelace_area_px2 :: "json list \<Rightarrow> py_error + real" where
  "shoelace_area_px2 points =
     (let n = length points in
      if n < 3 then Inr 0
      else (case shoelace_loop points [0..<n] 0 of
              Inl e \<Rightarrow> Inl e
            | Inr s \<Rightarrow> Inr (\<bar>s\<bar> / 2)))"

subsection \<open>Rows\<close>

definition PX2_TO_KG :: real where
  "PX2_TO_KG = 0.00012"

definition LOW_MULT :: real where
  "LOW_MULT = 1.0"

definition MOD_MULT :: real where
  "MOD_MULT = 1.5"

definition HIGH_MULT :: real where
  "HIGH_MULT = 2.0"

text \<open>
  The dict that \<^verbatim>\<open>prediction_to_row\<close> returns, one field per key
  (\<open>class_label\<close> is the key \<^verbatim>\<open>"class"\<close>).
\<close>

record row =
  detection_id :: json
  class_label :: json
  class_id :: json
  confidence :: json
  bbox_x :: json
  bbox_y :: json
  bbox_width :: json
  bbox_height :: json
  num_points :: nat
  area_px2 :: real
  mass_low_kg :: real
  mass_mod_kg :: real
  mass_high_kg :: real

text \<open>\<^verbatim>\<open>pred.get("points", [])\<close>\<close>

definition points_of :: "(string \<times> json) list \<Rightarrow> json" where
  "points_of pred = (case map_of pred ''points'' of None \<Rightarrow> JList [] | Some v \<Rightarrow> v)"

text \<open>
  \<^verbatim>\<open>pred.get\<close> on a value that is no dict raises \<^verbatim>\<open>AttributeError\<close>.
\<close>

fun prediction_to_row :: "json \<Rightarrow> py_error + row" where
  "prediction_to_row (JDict pred) =
     (let pts = points_of pred in
      case (case pts of JList ps \<Rightarrow> shoelace_area_px2 ps | _ \<Rightarrow> Inr 0) of
        Inl e \<Rightarrow> Inl e
      | Inr area \<Rightarrow>
          (let surface_kg = area * PX2_TO_KG in
           Inr \<lparr> detection_id = py_get pred ''detection_id'',
                 class_label = py_get pred ''class'',
                 class_id = py_get pred ''class_id'',
                 confidence = py_get pred ''confidence'',
                 bbox_x = py_get pred ''x'',
                 bbox_y = py_get pred ''y'',
                 bbox_width = py_get pred ''width'',
                 bbox_height = py_get pred ''height'',
                 num_points = (case pts of JList ps \<Rightarrow> length ps | _ \<Rightarrow> 0),
                 area_px2 = area,
                 mass_low_kg = surface_kg * LOW_MULT,
                 mass_mod_kg = surface_kg * MOD_MULT,
                 mass_high_kg = surface_kg * HIGH_MULT \<rparr>))"
| "prediction_to_row _ = Inl AttributeError"

subsection \<open>The report\<close>






subsection \<open>Vocabulary of the specification\<close>




definition point :: "json \<Rightarrow> json \<Rightarrow> json" where
  "point x y = JDict [(''x'', x), (''y'', y)]"





text \<open>The pass-through fields: the key read from the detection and the field of the row.\<close>

definition pass_through :: "(string \<times> (row \<Rightarrow> json)) list" where
  "pass_through =
     [(''detection_id'', detection_id), (''class'', class_label), (''class_id'', class_id),
      (''confidence'', confidence), (''x'', bbox_x), (''y'', bbox_y),
      (''width'', bbox_width), (''height'', bbox_height)]"

text \<open>The detection and the document of the specification's end-to-end example.\<close>

definition example_detection :: json where
  "example_detection =
     JDict [(''detection_id'', JStr ''a''), (''class'', JStr ''bottle''), (''class_id'', JInt 1),
            (''confidence'', JFloat 0.9), (''x'', JInt 10), (''y'', JInt 10),
            (''width'', JInt 20), (''height'', JInt 20),
            (''points'', JList [point (JInt 0) (JInt 0), point (JInt 10) (JInt 0),
                                point (JInt 10) (JInt 10), point (JInt 0) (JInt 10)])]"


section \<open>Auxiliary facts\<close>

subsection \<open>One edge, and the loop\<close>





subsection \<open>The sum around the polygon\<close>









subsection \<open>The area of a list of vertices\<close>









subsection \<open>Rows and sums\<close>





lemma example_area:
  "shoelace_area_px2 [point (JInt 0) (JInt 0), point (JInt 10) (JInt 0),
                      point (JInt 10) (JInt 10), point (JInt 0) (JInt 10)] = Inr 100"
  by (simp add: shoelace_area_px2_def point_def upt_rec edge_term_def cross_def)

lemma example_row:
  "prediction_to_row example_detection =
     Inr \<lparr> detection_id = JStr ''a'', class_label = JStr ''bottle'', class_id = JInt 1,
           confidence = JFloat 0.9, bbox_x = JInt 10, bbox_y = JInt 10,
           bbox_width = JInt 20, bbox_height = JInt 20, num_points = 4,
           area_px2 = 100.0, mass_low_kg = 0.012, mass_mod_kg = 0.018,
           mass_high_kg = 0.024 \<rparr>"
  by (simp add: example_detection_def points_of_def example_area py_get_def
      PX2_TO_KG_def LOW_MULT_def MOD_MULT_def HIGH_MULT_def)

section \<open>The properties of the specification\<close>

subsection \<open>The area formula\<close>



subsection \<open>The extractor on the recognised shapes\<close>

text \<open>
  Claim C2. On a mapping whose key \<^verbatim>\<open>"predictions"\<close> holds a sequence,
  \<^verbatim>\<open>iter_prediction_objects\<close> yields exactly the elements of that sequence, in order,
  whatever the other keys hold. For all values \<open>p1\<close>, \<open>p2\<close>, \<open>p3\<close>:
  \<^verbatim>\<open>{"predictions":[p1,p2]}\<close> yields \<open>[p1, p2]\<close>;
  \<^verbatim>\<open>[{"predictions":[p1]},{"predictions":[p2,p3]}]\<close> yields \<open>[p1, p2, p3]\<close>;
  \<^verbatim>\<open>{"outputs":[{"predictions":[p1]}]}\<close> yields \<open>[p1]\<close>; \<^verbatim>\<open>{}\<close> yields
  nothing; and \<^verbatim>\<open>{"foo":{"predictions":[p1]}}\<close> yields \<open>[p1]\<close> through the
  recursive fallback. No exception ends any of these generators.
\<close>

theorem iter_prediction_objects_shapes:
  "(map_of obj ''predictions'' = Some (JList ps) \<longrightarrow>
      iter_prediction_objects (JDict obj) = (ps, None))
   \<and> iter_prediction_objects (JDict [(''predictions'', JList [p1, p2])]) = ([p1, p2], None)
   \<and> iter_prediction_objects
        (JList [JDict [(''predictions'', JList [p1])],
                JDict [(''predictions'', JList [p2, p3])]]) = ([p1, p2, p3], None)
   \<and> iter_prediction_objects
        (JDict [(''outputs'', JList [JDict [(''predictions'', JList [p1])]])]) = ([p1], None)
   \<and> iter_prediction_objects (JDict []) = ([], None)
   \<and> iter_prediction_objects
        (JDict [(''foo'', JDict [(''predictions'', JList [p1])])]) = ([p1], None)"
  by (simp add: gen_concat_def gen_empty_def yield_from_def)

text \<open>
  A mapping with an \<^verbatim>\<open>"image"\<close> key before and an \<^verbatim>\<open>"outputs"\<close> key after its
  \<^verbatim>\<open>"predictions"\<close>: only the two predictions are yielded.
\<close>

theorem iter_prediction_objects_shapes_witness:
  "map_of [(''image'', JStr ''a.jpg''), (''predictions'', JList [JInt 1, JInt 2]),
           (''outputs'', JList [JDict [(''predictions'', JList [JInt 3])]])] ''predictions''
     = Some (JList [JInt 1, JInt 2])
   \<and> iter_prediction_objects
        (JDict [(''image'', JStr ''a.jpg''), (''predictions'', JList [JInt 1, JInt 2]),
                (''outputs'', JList [JDict [(''predictions'', JList [JInt 3])]])])
     = ([JInt 1, JInt 2], None)"
  using iter_prediction_objects_shapes
    [of "[(''image'', JStr ''a.jpg''), (''predictions'', JList [JInt 1, JInt 2]),
          (''outputs'', JList [JDict [(''predictions'', JList [JInt 3])]])]" "[JInt 1, JInt 2]"]
  by simp

subsection \<open>When a row is returned\<close>




subsection \<open>The extractor on a malformed shape\<close>

text \<open>
  Claim C4 says that \<^verbatim>\<open>iter_prediction_objects\<close> raises on no input. Under the key
  \<^verbatim>\<open>"predictions"\<close> of the mapping itself a value that is no list is skipped, by the
  \<^verbatim>\<open>isinstance\<close> test of the first rule; under the same key of an element of
  \<^verbatim>\<open>"outputs"\<close> that test is missing, and \<^verbatim>\<open>yield from\<close> raises
  \<^verbatim>\<open>TypeError\<close> on a value that cannot be iterated:
  \<^verbatim>\<open>{"outputs": [{"predictions": null}]}\<close> raises, while
  \<^verbatim>\<open>{"predictions": null}\<close> yields nothing.
\<close>

theorem outputs_predictions_not_checked:
  "iter_prediction_objects (JDict [(''outputs'', JList [JDict [(''predictions'', JNull)]])])
     = ([], Some TypeError)
   \<and> iter_prediction_objects (JDict [(''predictions'', JNull)]) = ([], None)"
  by (simp add: gen_concat_def gen_empty_def yield_from_def)

subsection \<open>The totals row\<close>



subsection \<open>The three masses\<close>



subsection \<open>The pass-through fields\<close>

text \<open>
  Claim C7. For every detection mapping that gives a row, each pass-through field of the
  row (detection id, class, class id, confidence and the four bounding-box fields) is
  the value the detection holds under the corresponding key, unchanged; for a key the
  detection does not have, the field is \<^verbatim>\<open>None\<close>, which is neither the int 0 nor the
  float 0.
\<close>

theorem prediction_to_row_pass_through:
  "prediction_to_row (JDict pred) = Inr r \<longrightarrow>
     (\<forall>(k, field) \<in> set pass_through.
        (\<forall>v. map_of pred k = Some v \<longrightarrow> field r = v)
      \<and> (map_of pred k = None \<longrightarrow> field r = JNull))
     \<and> JNull \<noteq> JInt 0 \<and> JNull \<noteq> JFloat 0"
  by (auto simp: pass_through_def py_get_def Let_def split: sum.splits)

text \<open>
  The example detection, with every field populated, and a detection with only the key
  \<^verbatim>\<open>"x"\<close>.
\<close>

theorem prediction_to_row_pass_through_witness:
  "(\<exists>r. prediction_to_row example_detection = Inr r
       \<and> detection_id r = JStr ''a'' \<and> class_label r = JStr ''bottle'' \<and> class_id r = JInt 1
       \<and> confidence r = JFloat 0.9 \<and> bbox_x r = JInt 10 \<and> bbox_y r = JInt 10
       \<and> bbox_width r = JInt 20 \<and> bbox_height r = JInt 20)
   \<and> (\<exists>r. prediction_to_row (JDict [(''x'', JInt 0)]) = Inr r
       \<and> bbox_x r = JInt 0 \<and> bbox_y r = JNull \<and> detection_id r = JNull)"
proof -
  let ?d = "[(''detection_id'', JStr ''a''), (''class'', JStr ''bottle''), (''class_id'', JInt 1),
            (''confidence'', JFloat 0.9), (''x'', JInt 10), (''y'', JInt 10),
            (''width'', JInt 20), (''height'', JInt 20),
            (''points'', JList [point (JInt 0) (JInt 0), point (JInt 10) (JInt 0),
                                point (JInt 10) (JInt 10), point (JInt 0) (JInt 10)])]"
  obtain r where r: "prediction_to_row (JDict ?d) = Inr r"
    using example_row by (simp add: example_detection_def)
  from prediction_to_row_pass_through [of ?d r] r
  have "detection_id r = JStr ''a'' \<and> class_label r = JStr ''bottle'' \<and> class_id r = JInt 1
       \<and> confidence r = JFloat 0.9 \<and> bbox_x r = JInt 10 \<and> bbox_y r = JInt 10
       \<and> bbox_width r = JInt 20 \<and> bbox_height r = JInt 20"
    by (simp add: pass_through_def)
  with r have first: "\<exists>r. prediction_to_row example_detection = Inr r
       \<and> detection_id r = JStr ''a'' \<and> class_label r = JStr ''bottle'' \<and> class_id r = JInt 1
       \<and> confidence r = JFloat 0.9 \<and> bbox_x r = JInt 10 \<and> bbox_y r = JInt 10
       \<and> bbox_width r = JInt 20 \<and> bbox_height r = JInt 20"
    unfolding example_detection_def by blast
  obtain z where z: "prediction_to_row (JDict [(''x'', JInt 0)]) = Inr z"
    by (simp add: points_of_def shoelace_area_px2_def)
  from prediction_to_row_pass_through [of "[(''x'', JInt 0)]" z] z
  have "bbox_x z = JInt 0 \<and> bbox_y z = JNull \<and> detection_id z = JNull"
    by (simp add: pass_through_def)
  with z first show ?thesis by blast
qed

subsection \<open>Winding direction and starting vertex\<close>



subsection \<open>The end-to-end example\<close>


subsection \<open>Non-negative areas and masses\<close>



end
